theory Spec2Isabelle
  imports Complex_Main "HOL-Library.Word" "HOL-Library.Multiset"
begin

section \<open>Requests and the approximate request size\<close>

text \<open>
  The fields of Go's \<open>http.Request\<close> that the handler reads. \<open>URL\<close> is a pointer and
  may be nil; a URL that is present is kept as the string \<open>r.URL.String()\<close> returns.
  \<open>Header\<close> is a Go map from a field name to its values; it is kept as an association
  list, and \<open>range\<close> visits its entries in some order. Strings are byte strings, so
  \<open>length\<close> is Go's \<open>len\<close>. \<open>ContentLength\<close> is an \<open>int64\<close>; Go's \<open>int\<close> is taken at
  64 bits, so \<open>int(r.ContentLength)\<close> keeps the value and \<open>+=\<close> wraps around.
\<close>

type_synonym go_int = "64 word"

record request =
  URL :: "string option"
  Method :: string
  Proto :: string
  Header :: "(string \<times> string list) list"
  Host :: string
  ContentLength :: "64 word"

definition len :: "string \<Rightarrow> go_int" where
  "len s = word_of_nat (length s)"

text \<open>The inner loop \<open>for _, value := range values { s += len(value) }\<close>.\<close>

primrec range_values :: "string list \<Rightarrow> go_int \<Rightarrow> go_int" where
  "range_values [] s = s"
| "range_values (v # values) s = range_values values (s + len v)"

text \<open>The outer loop \<open>for name, values := range r.Header { s += len(name); ... }\<close>.\<close>

primrec range_Header :: "(string \<times> string list) list \<Rightarrow> go_int \<Rightarrow> go_int" where
  "range_Header [] s = s"
| "range_Header (nv # rest) s =
     range_Header rest (range_values (snd nv) (s + len (fst nv)))"

definition computeApproximateRequestSize :: "request \<Rightarrow> go_int" where
  "computeApproximateRequestSize r =
     (let s = 0;
          s = (case URL r of None \<Rightarrow> s | Some u \<Rightarrow> s + len u);
          s = s + len (Method r);
          s = s + len (Proto r);
          s = range_Header (Header r) s;
          s = s + len (Host r);
          s = (if ContentLength r \<noteq> - 1 then s + ContentLength r else s)
      in s)"

text \<open>
  The size as the specification words it, over the unbounded integers: the lengths of
  the request target, the method, the protocol version, every header name and value and
  the host, plus the declared content length when that is not negative.
\<close>

definition header_bytes :: "(string \<times> string list) list \<Rightarrow> nat" where
  "header_bytes h = (\<Sum>nv\<leftarrow>h. length (fst nv) + (\<Sum>v\<leftarrow>snd nv. length v))"

definition estimateRequestSize_spec :: "request \<Rightarrow> int" where
  "estimateRequestSize_spec r =
     (case URL r of None \<Rightarrow> 0 | Some u \<Rightarrow> int (length u))
     + int (length (Method r)) + int (length (Proto r))
     + int (header_bytes (Header r)) + int (length (Host r))
     + (if 0 \<le> sint (ContentLength r) then sint (ContentLength r) else 0)"

section \<open>The metric registry\<close>

text \<open>
  The fields of the package variable \<open>httpMetrics\<close>, one per metric vector. A vector is
  a gauge, a counter or a histogram vector; its options are the fields of the client's
  \<open>GaugeOpts\<close>, \<open>CounterOpts\<close> and \<open>HistogramOpts\<close> that \<open>init\<close> sets, and
  \<open>labelNames\<close> is the label schema the vector is created with.
\<close>

datatype metric =
  requestInFlight | requestCount | requestErrors
  | requestDuration | requestSize | responseSize | responseDuration

datatype vec = GaugeVec | CounterVec | HistogramVec

record instrument =
  field :: metric
  kind :: vec
  Namespace :: string
  Subsystem :: string
  Name :: string
  Help :: string
  Buckets :: "real list"
  labelNames :: "string list"

text \<open>
  Modelled from the spec: \<open>prometheus.ExponentialBuckets(start, factor, count)\<close> is a
  function of the metrics client, not of this repository; section 4.1 of the
  specification describes its result as \<open>count\<close> exponentially growing buckets that start
  at \<open>start\<close> and grow by \<open>factor\<close>. The client's \<open>prometheus.DefBuckets\<close> is a
  parameter of \<open>init\<close>.
\<close>

primrec ExponentialBuckets :: "real \<Rightarrow> real \<Rightarrow> nat \<Rightarrow> real list" where
  "ExponentialBuckets start factor 0 = []"
| "ExponentialBuckets start factor (Suc n) =
     start # ExponentialBuckets (start * factor) factor n"

text \<open>
  \<open>init\<close> creates and registers the vectors in this order. The two calls that register
  the module and its configuration directive with the host do not touch the metrics
  and are left out.
\<close>

definition init :: "real list \<Rightarrow> instrument list" where
  "init DefBuckets =
     (let ns = ''caddy''; sub = ''http_extend'';
          basicLabels = [''host''];
          durationBuckets = DefBuckets;
          sizeBuckets = ExponentialBuckets 256 4 8;
          httpLabels = [''host'', ''code'', ''method'']
      in [\<lparr>field = requestInFlight, kind = GaugeVec, Namespace = ns, Subsystem = sub,
            Name = ''requests_in_flight'',
            Help = ''Number of requests currently handled by this server.'',
            Buckets = [], labelNames = basicLabels\<rparr>,
          \<lparr>field = requestErrors, kind = CounterVec, Namespace = ns, Subsystem = sub,
            Name = ''request_errors_total'',
            Help = ''Number of requests resulting in middleware errors.'',
            Buckets = [], labelNames = basicLabels\<rparr>,
          \<lparr>field = requestCount, kind = CounterVec, Namespace = ns, Subsystem = sub,
            Name = ''requests_total'',
            Help = ''Counter of HTTP(S) requests made.'',
            Buckets = [], labelNames = basicLabels\<rparr>,
          \<lparr>field = requestDuration, kind = HistogramVec, Namespace = ns, Subsystem = sub,
            Name = ''request_duration_seconds'',
            Help = ''Histogram of round-trip request durations.'',
            Buckets = durationBuckets, labelNames = httpLabels\<rparr>,
          \<lparr>field = requestSize, kind = HistogramVec, Namespace = ns, Subsystem = sub,
            Name = ''request_size_bytes'',
            Help = ''Total size of the request. Includes body'',
            Buckets = sizeBuckets, labelNames = httpLabels\<rparr>,
          \<lparr>field = responseSize, kind = HistogramVec, Namespace = ns, Subsystem = sub,
            Name = ''response_size_bytes'',
            Help = ''Size of the returned response.'',
            Buckets = sizeBuckets, labelNames = httpLabels\<rparr>,
          \<lparr>field = responseDuration, kind = HistogramVec, Namespace = ns, Subsystem = sub,
            Name = ''response_duration_seconds'',
            Help = ''Histogram of times to first byte in response bodies.'',
            Buckets = durationBuckets, labelNames = httpLabels\<rparr>])"

section \<open>Metric operations\<close>

text \<open>
  \<open>prometheus.Labels\<close> is a Go map from label names to label values. Reading a key that
  is absent from a Go map gives the empty string.
\<close>

type_synonym labels = "string \<rightharpoonup> string"

definition label :: "labels \<Rightarrow> string \<Rightarrow> string" where
  "label ls k = (case ls k of None \<Rightarrow> '''' | Some v \<Rightarrow> v)"

text \<open>
  Every statement of \<open>ServeHTTP\<close> that touches a metric is one event, in program order:
  \<open>vec.With(ls).Inc()\<close>, \<open>vec.With(ls).Dec()\<close> and \<open>vec.With(ls).Observe(v)\<close>. Three
  more events mark the call of the next handler and the two ways it can end. Observed
  values are \<open>float64\<close> in Go and real numbers here.
\<close>

datatype event =
  Inc metric labels
  | Dec metric labels
  | Observe metric labels real
  | CallNext
  | NextReturned
  | NextPanicked

text \<open>
  The metrics client's storage, as far as the claims need it: the number each gauge or
  counter series holds, and the values each histogram series has observed, oldest
  first. A series is a vector and a label set.
\<close>

record metrics =
  numbers :: "metric \<times> labels \<Rightarrow> int"
  samples :: "metric \<times> labels \<Rightarrow> real list"

fun apply_event :: "event \<Rightarrow> metrics \<Rightarrow> metrics" where
  "apply_event (Inc m ls) s = s\<lparr>numbers := (numbers s)((m, ls) := numbers s (m, ls) + 1)\<rparr>"
| "apply_event (Dec m ls) s = s\<lparr>numbers := (numbers s)((m, ls) := numbers s (m, ls) - 1)\<rparr>"
| "apply_event (Observe m ls v) s =
     s\<lparr>samples := (samples s)((m, ls) := samples s (m, ls) @ [v])\<rparr>"
| "apply_event CallNext s = s"
| "apply_event NextReturned s = s"
| "apply_event NextPanicked s = s"

definition exec :: "event list \<Rightarrow> metrics \<Rightarrow> metrics" where
  "exec es s = fold apply_event es s"

text \<open>The events of a trace that concern one vector.\<close>

fun observed :: "metric \<Rightarrow> event list \<Rightarrow> (labels \<times> real) list" where
  "observed m [] = []"
| "observed m (Observe m' ls v # es) =
     (if m' = m then (ls, v) # observed m es else observed m es)"
| "observed m (e # es) = observed m es"

fun incs :: "metric \<Rightarrow> event list \<Rightarrow> labels list" where
  "incs m [] = []"
| "incs m (Inc m' ls # es) = (if m' = m then ls # incs m es else incs m es)"
| "incs m (e # es) = incs m es"

fun decs :: "metric \<Rightarrow> event list \<Rightarrow> labels list" where
  "decs m [] = []"
| "decs m (Dec m' ls # es) = (if m' = m then ls # decs m es else decs m es)"
| "decs m (e # es) = decs m es"

section \<open>The next handler, the response recorder and the clock\<close>

text \<open>
  What \<open>ServeHTTP\<close> sees of one call \<open>next.ServeHTTP(wrec, r)\<close>. The response recorder
  calls the \<open>ShouldBufferFunc\<close> it was given when the next handler writes a response
  head: \<open>head_writes\<close> lists these calls in order, each with the status passed and the
  duration \<open>time.Since(start)\<close> that the callback reads, in nanoseconds. The call then
  either returns or panics. When it returns, \<open>err\<close> is the error (\<open>None\<close> for nil),
  \<open>since_start\<close> is \<open>time.Since(start)\<close> read right after the return, and \<open>Status\<close> and
  \<open>Size\<close> are what \<open>wrec.Status()\<close> and \<open>wrec.Size()\<close> give.

  An error is known by its message; \<open>StatusCode\<close> is the status code of the
  \<open>caddyhttp.HandlerError\<close> that \<open>errors.As\<close> finds in it, if there is one.
\<close>

record go_error =
  message :: string
  StatusCode :: "int option"

record returned =
  err :: "go_error option"
  since_start :: int
  Status :: int
  Size :: int

datatype completion = Returned returned | Panicked

record next_run =
  head_writes :: "(int \<times> int) list"
  completion :: completion

text \<open>What a call of \<open>ServeHTTP\<close> does: it returns an error or nil, or the panic of the
  next handler goes on through it.\<close>

datatype result = Return "go_error option" | Panic

text \<open>\<open>time.Duration.Seconds\<close>: nanoseconds to seconds.\<close>

definition Seconds :: "int \<Rightarrow> real" where
  "Seconds d = real_of_int d / 1000000000"

section \<open>The request instrumentor\<close>

text \<open>
  \<open>SanitizeCode\<close> and \<open>SanitizeMethod\<close> are used by \<open>ServeHTTP\<close> and defined elsewhere;
  they are parameters here.

  The callback \<open>writeHeaderRecorder\<close>: it stores the sanitized status under \<open>code\<close> in
  \<open>statusLabels\<close>, observes the time to the first byte and answers \<open>false\<close> (do not
  buffer). The model returns the updated labels and the event.
\<close>

definition writeHeaderRecorder ::
  "(int \<Rightarrow> string) \<Rightarrow> labels \<Rightarrow> int \<times> int \<Rightarrow> labels \<times> event list" where
  "writeHeaderRecorder SanitizeCode statusLabels call =
     (let statusLabels = statusLabels(''code'' \<mapsto> SanitizeCode (fst call));
          ttfb = Seconds (snd call)
      in (statusLabels, [Observe responseDuration statusLabels ttfb]))"

text \<open>The calls of the callback while the next handler runs, threading \<open>statusLabels\<close>.\<close>

fun next_ServeHTTP ::
  "(int \<Rightarrow> string) \<Rightarrow> (int \<times> int) list \<Rightarrow> labels \<Rightarrow> labels \<times> event list" where
  "next_ServeHTTP SanitizeCode [] statusLabels = (statusLabels, [])"
| "next_ServeHTTP SanitizeCode (call # calls) statusLabels =
     (let (statusLabels, es) = writeHeaderRecorder SanitizeCode statusLabels call;
          (statusLabels, es') = next_ServeHTTP SanitizeCode calls statusLabels
      in (statusLabels, es @ es'))"

text \<open>The closure \<open>observeRequest\<close>, with the variables it captures as arguments.\<close>

definition observeRequest ::
  "(int \<Rightarrow> string) \<Rightarrow> request \<Rightarrow> real \<Rightarrow> int \<Rightarrow> labels \<Rightarrow> int \<Rightarrow> labels \<times> event list" where
  "observeRequest SanitizeCode r dur wrec_Size statusLabels status =
     (let statusLabels =
            (if label statusLabels ''code'' = ''''
             then statusLabels(''code'' \<mapsto> SanitizeCode status) else statusLabels)
      in (statusLabels,
          [Observe requestDuration statusLabels dur,
           Observe requestSize statusLabels
             (real_of_int (sint (computeApproximateRequestSize r))),
           Observe responseSize statusLabels (real_of_int wrec_Size)]))"

text \<open>
  \<open>ServeHTTP\<close>. The deferred \<open>inFlight.Dec()\<close> runs last on every path, also when the
  next handler panics.
\<close>

definition ServeHTTP ::
  "(int \<Rightarrow> string) \<Rightarrow> (string \<Rightarrow> string) \<Rightarrow> request \<Rightarrow> next_run \<Rightarrow> event list \<times> result" where
  "ServeHTTP SanitizeCode SanitizeMethod r nxt =
     (let labels = [''host'' \<mapsto> Host r];
          method = SanitizeMethod (Method r);
          statusLabels = [''host'' \<mapsto> Host r, ''method'' \<mapsto> method, ''code'' \<mapsto> ''0''];
          inFlight_Inc = [Inc requestInFlight labels];
          inFlight_Dec = [Dec requestInFlight labels];
          (statusLabels, hooked) = next_ServeHTTP SanitizeCode (head_writes nxt) statusLabels
      in case completion nxt of
           Panicked \<Rightarrow>
             (inFlight_Inc @ [CallNext] @ hooked @ [NextPanicked] @ inFlight_Dec, Panic)
         | Returned ret \<Rightarrow>
             (let dur = Seconds (since_start ret);
                  counted = [NextReturned, Inc requestCount labels]
              in case err ret of
                   Some e \<Rightarrow>
                     (let observations =
                            (case StatusCode e of
                               Some code \<Rightarrow>
                                 snd (observeRequest SanitizeCode r dur (Size ret)
                                        statusLabels code)
                             | None \<Rightarrow> [])
                      in (inFlight_Inc @ [CallNext] @ hooked @ counted @ observations
                            @ [Inc requestErrors labels] @ inFlight_Dec,
                          Return (Some e)))
                 | None \<Rightarrow>
                     (inFlight_Inc @ [CallNext] @ hooked @ counted
                        @ snd (observeRequest SanitizeCode r dur (Size ret)
                                 statusLabels (Status ret))
                        @ inFlight_Dec,
                      Return None)))"

section \<open>Label sets and schemas\<close>

text \<open>
  \<open>vec.With(ls)\<close> panics in the metrics client unless the names in \<open>ls\<close> are the
  label names the vector was created with. The events above take \<open>With\<close> as total;
  \<open>With_ok\<close> says of an event that its label set fits the schema \<open>init\<close> gave its vector.
\<close>

definition labelNames_of :: "real list \<Rightarrow> metric \<Rightarrow> string set" where
  "labelNames_of DefBuckets m =
     set (concat (map labelNames (filter (\<lambda>i. field i = m) (init DefBuckets))))"

fun With_ok :: "real list \<Rightarrow> event \<Rightarrow> bool" where
  "With_ok DefBuckets (Inc m ls) = (dom ls = labelNames_of DefBuckets m)"
| "With_ok DefBuckets (Dec m ls) = (dom ls = labelNames_of DefBuckets m)"
| "With_ok DefBuckets (Observe m ls v) = (dom ls = labelNames_of DefBuckets m)"
| "With_ok DefBuckets e = True"

section \<open>Runs on the monotonic clock\<close>

text \<open>
  \<open>start := time.Now()\<close> carries a reading of Go's monotonic clock, and
  \<open>time.Since(start)\<close> subtracts it from a later reading of the same clock. That clock
  does not run backwards: from one reading to the next a natural number of nanoseconds
  passes. A run of the next handler on this clock is given by the calls of the callback
  in order, each with the status and the time passed since the reading before it (the
  first since \<open>start\<close>), by the time \<open>passed\<close> from the last of these readings to the
  reading after the return, and by how the run ends. \<open>on_clock\<close> fills in what
  \<open>time.Since(start)\<close> gives at each reading; the \<open>since_start\<close> of the ending it is
  given is not used.

  \<open>ascending\<close> says of the readings of a run that none is earlier than the one before,
  and \<open>passed_between\<close> gives the times between them.
\<close>

fun readings :: "int \<Rightarrow> (int \<times> nat) list \<Rightarrow> (int \<times> int) list" where
  "readings now [] = []"
| "readings now (call # calls) =
     (fst call, now + int (snd call)) # readings (now + int (snd call)) calls"

definition now_after :: "(int \<times> nat) list \<Rightarrow> int" where
  "now_after calls = int (sum_list (map snd calls))"

definition on_clock :: "(int \<times> nat) list \<Rightarrow> nat \<Rightarrow> completion \<Rightarrow> next_run" where
  "on_clock calls passed c =
     \<lparr>head_writes = readings 0 calls,
        completion =
          (case c of
             Returned ret \<Rightarrow> Returned (ret\<lparr>since_start := now_after calls + int passed\<rparr>)
           | Panicked \<Rightarrow> Panicked)\<rparr>"

fun ascending :: "int \<Rightarrow> (int \<times> int) list \<Rightarrow> int \<Rightarrow> bool" where
  "ascending now [] d = (now \<le> d)"
| "ascending now (call # calls) d = (now \<le> snd call \<and> ascending (snd call) calls d)"

fun passed_between :: "int \<Rightarrow> (int \<times> int) list \<Rightarrow> (int \<times> nat) list" where
  "passed_between now [] = []"
| "passed_between now (call # calls) =
     (fst call, nat (snd call - now)) # passed_between (snd call) calls"

section \<open>Sample inputs\<close>

text \<open>
  Concrete requests, sanitizers and runs of the next handler, used where a statement is
  evaluated at an explicit input. \<open>request_post\<close> declares twelve body bytes;
  \<open>request_huge\<close> declares the largest content length that Go's \<open>net/http\<close> accepts,
  \<open>2 ^ 63 - 1\<close>. The two sample sanitizers stand in for the two functions that the
  source files at hand do not define: any pair of functions would do.
\<close>

definition request_get :: request where
  "request_get =
     \<lparr>URL = Some ''/x'', Method = ''GET'', Proto = ''HTTP/1.1'', Header = [],
        Host = ''h'', ContentLength = - 1\<rparr>"

definition request_post :: request where
  "request_post =
     \<lparr>URL = Some ''/upload'', Method = ''POST'', Proto = ''HTTP/1.1'',
        Header = [(''Content-Type'', [''text/plain'']), (''Content-Length'', [''12''])],
        Host = ''h'', ContentLength = 12\<rparr>"

definition request_huge :: request where
  "request_huge =
     \<lparr>URL = Some ''/x'', Method = ''GET'', Proto = ''HTTP/1.1'',
        Header = [(''Content-Length'', [''9223372036854775807''])],
        Host = ''h'', ContentLength = 9223372036854775807\<rparr>"

definition sample_SanitizeCode :: "int \<Rightarrow> string" where
  "sample_SanitizeCode status = (if status = 0 \<or> status = 200 then ''200'' else ''other'')"

definition sample_SanitizeMethod :: "string \<Rightarrow> string" where
  "sample_SanitizeMethod method = (if method = ''GET'' then ''GET'' else ''OTHER'')"

text \<open>
  Three runs of the next handler: \<open>run_ok\<close> writes the head with status 200 after 2 ms
  and returns nil after 5 ms with 11 body bytes written; \<open>run_head_then_panic\<close> writes
  the same head and then panics; \<open>run_early_hints\<close> writes an informational head with
  status 103 after 1 ms, for which the response recorder calls the callback, then the
  final head with status 200 after 2 ms, for which it calls the callback again, and
  returns nil after 5 ms.
\<close>

definition run_ok :: next_run where
  "run_ok =
     \<lparr>head_writes = [(200, 2000000)],
        completion = Returned \<lparr>err = None, since_start = 5000000, Status = 200, Size = 11\<rparr>\<rparr>"

definition run_head_then_panic :: next_run where
  "run_head_then_panic = \<lparr>head_writes = [(200, 2000000)], completion = Panicked\<rparr>"

definition run_early_hints :: next_run where
  "run_early_hints =
     \<lparr>head_writes = [(103, 1000000), (200, 2000000)],
        completion = Returned \<lparr>err = None, since_start = 5000000, Status = 200, Size = 11\<rparr>\<rparr>"

section \<open>Facts about the size estimate\<close>

lemma range_values_sum:
  "range_values vs s = s + word_of_nat (\<Sum>v\<leftarrow>vs. length v)"
  by (induction vs arbitrary: s) (simp_all add: len_def)

lemma range_Header_sum:
  "range_Header h s = s + word_of_nat (header_bytes h)"
  by (induction h arbitrary: s) (simp_all add: header_bytes_def range_values_sum len_def)

lemma computeApproximateRequestSize_spec:
  assumes "- 1 \<le> sint (ContentLength r)"
  shows "computeApproximateRequestSize r = word_of_int (estimateRequestSize_spec r)"
proof -
  have cl: "0 \<le> sint (ContentLength r)" if n: "ContentLength r \<noteq> - 1"
  proof -
    have "sint (ContentLength r) \<noteq> - 1"
    proof
      assume "sint (ContentLength r) = - 1"
      then have "word_of_int (sint (ContentLength r)) = (word_of_int (- 1) :: 64 word)"
        by simp
      then show False using n by simp
    qed
    with assms show ?thesis by arith
  qed
  show ?thesis
    using cl
    by (cases "URL r")
       (auto simp add: computeApproximateRequestSize_def estimateRequestSize_spec_def
          range_Header_sum len_def Let_def)
qed

lemma estimateRequestSize_spec_nonneg: "0 \<le> estimateRequestSize_spec r"
  by (cases "URL r") (simp_all add: estimateRequestSize_spec_def)

text \<open>
  The entries of a Go map are visited in no fixed order; the sum does not depend on it.
\<close>

lemma header_bytes_order:
  assumes "mset h = mset h'"
  shows "header_bytes h = header_bytes h'"
proof -
  let ?f = "\<lambda>nv :: string \<times> string list. length (fst nv) + (\<Sum>v\<leftarrow>snd nv. length v)"
  have "sum_mset (mset (map ?f h)) = sum_mset (mset (map ?f h'))"
    by (simp only: mset_map assms)
  then show ?thesis
    by (simp only: header_bytes_def sum_mset_sum_list)
qed

lemma range_Header_order:
  "mset h = mset h' \<Longrightarrow> range_Header h s = range_Header h' s"
  using header_bytes_order [of h h'] by (simp add: range_Header_sum)

text \<open>
  C7, as amended. For every request whose content length is \<open>-1\<close> or not negative and
  whose summed lengths stay below \<open>2 ^ 63\<close>, the estimate is the sum the specification
  describes and is not negative: the content length \<open>-1\<close> and an absent URL contribute
  zero, a content length that is not negative contributes its value.
\<close>

theorem computeApproximateRequestSize_in_range:
  assumes "- 1 \<le> sint (ContentLength r)" and "estimateRequestSize_spec r < 2 ^ 63"
  shows "sint (computeApproximateRequestSize r) = estimateRequestSize_spec r
         \<and> 0 \<le> sint (computeApproximateRequestSize r)"
proof -
  have "sint (word_of_int (estimateRequestSize_spec r) :: 64 word)
      = estimateRequestSize_spec r"
    using estimateRequestSize_spec_nonneg [of r] assms(2)
    by (simp add: sint_sbintrunc' signed_take_bit_int_eq_self)
  then show ?thesis
    using computeApproximateRequestSize_spec [OF assms(1)]
      estimateRequestSize_spec_nonneg [of r]
    by simp
qed

theorem computeApproximateRequestSize_in_range_witness:
  "- 1 \<le> sint (ContentLength request_post)
   \<and> estimateRequestSize_spec request_post < 2 ^ 63
   \<and> sint (computeApproximateRequestSize request_post) = 70
   \<and> estimateRequestSize_spec request_post = 70"
proof -
  have a: "- 1 \<le> sint (ContentLength request_post)"
    by (simp add: request_post_def)
  have e: "estimateRequestSize_spec request_post = 70"
    by (simp add: request_post_def estimateRequestSize_spec_def header_bytes_def)
  have b: "estimateRequestSize_spec request_post < 2 ^ 63"
    by (simp add: e)
  show ?thesis
    using computeApproximateRequestSize_in_range [OF a b] a b e by simp
qed

text \<open>
  C7 as stated fails: a request that declares \<open>Content-Length: 9223372036854775807\<close>
  makes the sum wrap around, and the estimate is negative.
\<close>

theorem computeApproximateRequestSize_negative:
  "sint (computeApproximateRequestSize request_huge) = - 9223372036854775762
   \<and> \<not> 0 \<le> sint (computeApproximateRequestSize request_huge)"
  by (simp add: computeApproximateRequestSize_def request_huge_def len_def)

lemma sint_word_of_int_64:
  "0 \<le> x \<Longrightarrow> x < 2 ^ 63 \<Longrightarrow> sint (word_of_int x :: 64 word) = x"
  by (simp add: sint_sbintrunc' signed_take_bit_int_eq_self)

text \<open>
  C8. For a request with method GET, no headers, host h, content length \<open>-1\<close> and target
  /x, the estimate is the length of the target plus the lengths of the method, the
  protocol string and the host, that is, 6 plus the length of the protocol string; the
  content length adds nothing. The protocol string is shorter than \<open>2 ^ 63 - 6\<close> bytes,
  as every Go string is.
\<close>

theorem computeApproximateRequestSize_get:
  assumes "int (length proto) + 6 < 2 ^ 63"
  shows "sint (computeApproximateRequestSize
           \<lparr>URL = Some ''/x'', Method = ''GET'', Proto = proto, Header = [], Host = ''h'',
              ContentLength = - 1\<rparr>)
         = int (length ''/x'') + int (length ''GET'') + int (length proto) + int (length ''h'')
         \<and> sint (computeApproximateRequestSize
           \<lparr>URL = Some ''/x'', Method = ''GET'', Proto = proto, Header = [], Host = ''h'',
              ContentLength = - 1\<rparr>)
         = 6 + int (length proto)"
proof -
  let ?r = "\<lparr>URL = Some ''/x'', Method = ''GET'', Proto = proto, Header = [], Host = ''h'',
              ContentLength = - 1 :: 64 word\<rparr>"
  have e: "estimateRequestSize_spec ?r = int (length proto) + 6"
    by (simp add: estimateRequestSize_spec_def header_bytes_def)
  have c: "computeApproximateRequestSize ?r = word_of_int (estimateRequestSize_spec ?r)"
    by (rule computeApproximateRequestSize_spec) simp
  have "sint (word_of_int (estimateRequestSize_spec ?r) :: 64 word)
      = estimateRequestSize_spec ?r"
    by (rule sint_word_of_int_64) (simp_all only: e, use assms in simp_all)
  then have "sint (computeApproximateRequestSize ?r) = int (length proto) + 6"
    by (simp only: c e)
  then show ?thesis by simp
qed

text \<open>The statement of C8 for the protocol string \<open>HTTP/1.1\<close>: the estimate is 14.\<close>

theorem computeApproximateRequestSize_get_witness:
  "int (length ''HTTP/1.1'') + 6 < 2 ^ 63
   \<and> sint (computeApproximateRequestSize
           \<lparr>URL = Some ''/x'', Method = ''GET'', Proto = ''HTTP/1.1'', Header = [],
              Host = ''h'', ContentLength = - 1\<rparr>) = 14"
proof -
  have a: "int (length ''HTTP/1.1'') + 6 < 2 ^ 63" by simp
  show ?thesis
    using computeApproximateRequestSize_get [OF a] by simp
qed

section \<open>Facts about traces\<close>

lemma observed_append: "observed m (a @ b) = observed m a @ observed m b"
  by (induction m a rule: observed.induct) simp_all

lemma incs_append: "incs m (a @ b) = incs m a @ incs m b"
  by (induction m a rule: incs.induct) simp_all

lemma decs_append: "decs m (a @ b) = decs m a @ decs m b"
  by (induction m a rule: decs.induct) simp_all

lemma exec_append: "exec (a @ b) s = exec b (exec a s)"
  by (simp add: exec_def)

lemma exec_Cons: "exec (e # es) s = exec es (apply_event e s)"
  by (simp add: exec_def)

lemma exec_Nil: "exec [] s = s"
  by (simp add: exec_def)

text \<open>
  What a trace does to the storage: a gauge or counter series moves by the number of its
  increments less the number of its decrements, and a histogram series gains the values
  observed under its label set, in order.
\<close>

lemma numbers_exec:
  "numbers (exec es s) (m, ls)
   = numbers s (m, ls) + int (count_list (incs m es) ls) - int (count_list (decs m es) ls)"
proof (induction es arbitrary: s)
  case Nil
  show ?case by (simp add: exec_Nil)
next
  case (Cons e es)
  show ?case by (cases e) (simp_all add: exec_Cons Cons.IH)
qed

lemma samples_exec:
  "samples (exec es s) (m, ls)
   = samples s (m, ls) @ map snd (filter (\<lambda>p. fst p = ls) (observed m es))"
proof (induction es arbitrary: s)
  case Nil
  show ?case by (simp add: exec_Nil)
next
  case (Cons e es)
  show ?case by (cases e) (simp_all add: exec_Cons Cons.IH)
qed

section \<open>Facts about the callback\<close>

lemma next_ServeHTTP_incs: "incs m (snd (next_ServeHTTP sc hw ls)) = []"
  by (induction hw arbitrary: ls)
     (simp_all add: writeHeaderRecorder_def split_def Let_def incs_append)

lemma next_ServeHTTP_decs: "decs m (snd (next_ServeHTTP sc hw ls)) = []"
  by (induction hw arbitrary: ls)
     (simp_all add: writeHeaderRecorder_def split_def Let_def decs_append)

lemma next_ServeHTTP_observed_other:
  "m \<noteq> responseDuration \<Longrightarrow> observed m (snd (next_ServeHTTP sc hw ls)) = []"
  by (induction hw arbitrary: ls)
     (simp_all add: writeHeaderRecorder_def split_def Let_def observed_append)

lemma next_ServeHTTP_observed:
  "map snd (observed responseDuration (snd (next_ServeHTTP sc hw ls)))
   = map (\<lambda>call. Seconds (snd call)) hw"
  by (induction hw arbitrary: ls)
     (simp_all add: writeHeaderRecorder_def split_def Let_def observed_append)

lemma next_ServeHTTP_labels_other:
  "k \<noteq> ''code'' \<Longrightarrow> fst (next_ServeHTTP sc hw ls) k = ls k"
  by (induction hw arbitrary: ls) (simp_all add: writeHeaderRecorder_def split_def Let_def)

lemma next_ServeHTTP_labels_code:
  "fst (next_ServeHTTP sc hw ls) ''code''
   = (if hw = [] then ls ''code'' else Some (sc (fst (last hw))))"
  by (induction hw arbitrary: ls) (simp_all add: writeHeaderRecorder_def split_def Let_def)

lemma Seconds_mono: "a \<le> b \<Longrightarrow> Seconds a \<le> Seconds b"
  by (simp add: Seconds_def divide_right_mono)

section \<open>Facts about the instrumentor\<close>

lemma ServeHTTP_trace:
  "\<exists>mid. fst (ServeHTTP sc sm r nxt)
      = [Inc requestInFlight [''host'' \<mapsto> Host r], CallNext]
        @ snd (next_ServeHTTP sc (head_writes nxt)
                 [''host'' \<mapsto> Host r, ''method'' \<mapsto> sm (Method r), ''code'' \<mapsto> ''0''])
        @ [case completion nxt of Returned ret \<Rightarrow> NextReturned | Panicked \<Rightarrow> NextPanicked]
        @ mid @ [Dec requestInFlight [''host'' \<mapsto> Host r]]
      \<and> incs requestInFlight mid = [] \<and> decs requestInFlight mid = []"
proof (cases "completion nxt")
  case Panicked
  then show ?thesis by (simp add: ServeHTTP_def Let_def split_def)
next
  case (Returned ret)
  show ?thesis
  proof (cases "err ret")
    case None
    with Returned show ?thesis
      by (simp add: ServeHTTP_def Let_def split_def observeRequest_def)
  next
    case (Some e)
    with Returned show ?thesis
      by (cases "StatusCode e")
         (simp_all add: ServeHTTP_def Let_def split_def observeRequest_def)
  qed
qed

lemma ServeHTTP_gauge_events:
  "incs requestInFlight (fst (ServeHTTP sc sm r nxt)) = [[''host'' \<mapsto> Host r]]
   \<and> decs requestInFlight (fst (ServeHTTP sc sm r nxt)) = [[''host'' \<mapsto> Host r]]"
proof -
  obtain mid where t: "fst (ServeHTTP sc sm r nxt)
      = [Inc requestInFlight [''host'' \<mapsto> Host r], CallNext]
        @ snd (next_ServeHTTP sc (head_writes nxt)
                 [''host'' \<mapsto> Host r, ''method'' \<mapsto> sm (Method r), ''code'' \<mapsto> ''0''])
        @ [case completion nxt of Returned ret \<Rightarrow> NextReturned | Panicked \<Rightarrow> NextPanicked]
        @ mid @ [Dec requestInFlight [''host'' \<mapsto> Host r]]"
    and m: "incs requestInFlight mid = []" "decs requestInFlight mid = []"
    using ServeHTTP_trace [of sc sm r nxt] by blast
  show ?thesis
    by (cases "completion nxt")
       (simp_all add: t m incs_append decs_append next_ServeHTTP_incs next_ServeHTTP_decs)
qed

lemma ServeHTTP_observed_responseDuration:
  "map snd (observed responseDuration (fst (ServeHTTP sc sm r nxt)))
   = map (\<lambda>call. Seconds (snd call)) (head_writes nxt)"
proof (cases "completion nxt")
  case Panicked
  then show ?thesis
    by (simp add: ServeHTTP_def Let_def split_def observed_append next_ServeHTTP_observed)
next
  case (Returned ret)
  show ?thesis
  proof (cases "err ret")
    case None
    with Returned show ?thesis
      by (simp add: ServeHTTP_def Let_def split_def observeRequest_def observed_append
            next_ServeHTTP_observed)
  next
    case (Some e)
    with Returned show ?thesis
      by (cases "StatusCode e")
         (simp_all add: ServeHTTP_def Let_def split_def observeRequest_def observed_append
            next_ServeHTTP_observed)
  qed
qed

lemma ServeHTTP_observed_requestDuration:
  "observed requestDuration (fst (ServeHTTP sc sm r nxt))
   = (case completion nxt of
        Panicked \<Rightarrow> []
      | Returned ret \<Rightarrow>
          (case err ret of
             None \<Rightarrow>
               [(fst (observeRequest sc r (Seconds (since_start ret)) (Size ret)
                   (fst (next_ServeHTTP sc (head_writes nxt)
                      [''host'' \<mapsto> Host r, ''method'' \<mapsto> sm (Method r), ''code'' \<mapsto> ''0'']))
                   (Status ret)),
                 Seconds (since_start ret))]
           | Some e \<Rightarrow>
               (case StatusCode e of
                  None \<Rightarrow> []
                | Some code \<Rightarrow>
                    [(fst (observeRequest sc r (Seconds (since_start ret)) (Size ret)
                        (fst (next_ServeHTTP sc (head_writes nxt)
                           [''host'' \<mapsto> Host r, ''method'' \<mapsto> sm (Method r),
                            ''code'' \<mapsto> ''0'']))
                        code),
                      Seconds (since_start ret))])))"
  by (simp add: ServeHTTP_def Let_def split_def observeRequest_def observed_append
        next_ServeHTTP_observed_other
      split: completion.split option.split)

lemma ServeHTTP_ttfb_le:
  assumes "list_all (\<lambda>call. snd call \<le> d) (head_writes nxt)"
  shows "list_all (\<lambda>p. snd p \<le> Seconds d)
           (observed responseDuration (fst (ServeHTTP sc sm r nxt)))"
proof -
  have "list_all (\<lambda>x. x \<le> Seconds d) (map (\<lambda>call. Seconds (snd call)) (head_writes nxt))"
    using assms by (simp add: list_all_iff Seconds_mono)
  then have "list_all (\<lambda>x. x \<le> Seconds d)
      (map snd (observed responseDuration (fst (ServeHTTP sc sm r nxt))))"
    by (simp only: ServeHTTP_observed_responseDuration)
  then show ?thesis by (simp add: list_all_iff)
qed

section \<open>Facts about the clock\<close>

lemma length_readings: "length (readings now calls) = length calls"
  by (induction calls arbitrary: now) simp_all

lemma readings_le:
  "list_all (\<lambda>call. snd call \<le> now + int (sum_list (map snd calls)) + int passed)
     (readings now calls)"
proof (induction calls arbitrary: now)
  case Nil
  show ?case by simp
next
  case (Cons call calls)
  show ?case
    using Cons.IH [of "now + int (snd call)"] by (simp add: algebra_simps)
qed

text \<open>
  Every run whose readings are ascending from \<open>start\<close> to the reading after the return
  is a run on the clock: \<open>on_clock\<close> leaves out no run that a clock which does not run
  backwards can give.
\<close>

lemma readings_passed_between:
  "ascending now hw d \<Longrightarrow>
   readings now (passed_between now hw) = hw
   \<and> now + int (sum_list (map snd (passed_between now hw))) \<le> d"
proof (induction hw arbitrary: now)
  case Nil
  then show ?case by simp
next
  case (Cons call hw)
  then have a: "now \<le> snd call" and b: "ascending (snd call) hw d" by simp_all
  from Cons.IH [OF b] a show ?case by simp
qed

lemma on_clock_covers:
  assumes "ascending 0 hw d"
  shows "on_clock (passed_between 0 hw) (nat (d - now_after (passed_between 0 hw)))
           (Returned ret)
         = \<lparr>head_writes = hw, completion = Returned (ret\<lparr>since_start := d\<rparr>)\<rparr>"
  using readings_passed_between [OF assms]
  by (simp add: on_clock_def now_after_def)

lemma on_clock_run_ok:
  "on_clock [(200, 2000000)] 3000000
     (Returned \<lparr>err = None, since_start = 0, Status = 200, Size = 11\<rparr>) = run_ok"
  by (simp add: on_clock_def now_after_def run_ok_def)

lemma on_clock_run_early_hints:
  "on_clock [(103, 1000000), (200, 1000000)] 3000000
     (Returned \<lparr>err = None, since_start = 0, Status = 200, Size = 11\<rparr>) = run_early_hints"
  by (simp add: on_clock_def now_after_def run_early_hints_def)

section \<open>No call of With can panic\<close>

lemma labelNames_of_simps:
  "labelNames_of d requestInFlight = {''host''}"
  "labelNames_of d requestCount = {''host''}"
  "labelNames_of d requestErrors = {''host''}"
  "labelNames_of d requestDuration = {''host'', ''code'', ''method''}"
  "labelNames_of d requestSize = {''host'', ''code'', ''method''}"
  "labelNames_of d responseSize = {''host'', ''code'', ''method''}"
  "labelNames_of d responseDuration = {''host'', ''code'', ''method''}"
  by (simp_all add: labelNames_of_def init_def Let_def)

lemma dom_statusLabels:
  "dom [''host'' \<mapsto> h, ''method'' \<mapsto> m, ''code'' \<mapsto> c] = {''host'', ''code'', ''method''}"
  by (simp add: insert_commute)

lemma dom_code:
  "dom ls = {''host'', ''code'', ''method''} \<Longrightarrow>
   dom (ls(''code'' \<mapsto> x)) = {''host'', ''code'', ''method''}"
  by (simp add: insert_absorb)

lemma next_ServeHTTP_With_ok:
  "dom ls = {''host'', ''code'', ''method''} \<Longrightarrow>
   dom (fst (next_ServeHTTP sc hw ls)) = {''host'', ''code'', ''method''}
   \<and> list_all (With_ok d) (snd (next_ServeHTTP sc hw ls))"
proof (induction hw arbitrary: ls)
  case Nil
  then show ?case by simp
next
  case (Cons call hw)
  note a = dom_code [OF Cons.prems, of "sc (fst call)"]
  from Cons.IH [OF a] a show ?case
    by (simp add: writeHeaderRecorder_def split_def Let_def labelNames_of_simps
      del: dom_fun_upd fun_upd_apply)
qed

lemma observeRequest_With_ok:
  assumes "dom ls = {''host'', ''code'', ''method''}"
  shows "list_all (With_ok d) (snd (observeRequest sc r dur n ls status))"
  using assms dom_code [OF assms, of "sc status"]
  by (simp add: observeRequest_def Let_def labelNames_of_simps del: dom_fun_upd fun_upd_apply)

text \<open>
  Every metric operation of \<open>ServeHTTP\<close> passes \<open>With\<close> a label set that fits the
  vector's schema, on every path and for every pair of sanitizers.
\<close>

lemma ServeHTTP_With_ok: "list_all (With_ok d) (fst (ServeHTTP sc sm r nxt))"
proof -
  let ?ls = "[''host'' \<mapsto> Host r, ''method'' \<mapsto> sm (Method r), ''code'' \<mapsto> ''0'']"
  have h: "dom (fst (next_ServeHTTP sc (head_writes nxt) ?ls)) = {''host'', ''code'', ''method''}
      \<and> list_all (With_ok d) (snd (next_ServeHTTP sc (head_writes nxt) ?ls))"
    by (rule next_ServeHTTP_With_ok [OF dom_statusLabels])
  note o = observeRequest_With_ok [OF conjunct1 [OF h], of d]
  have b: "dom [''host'' \<mapsto> Host r] = {''host''}" by simp
  show ?thesis
    using h o b
    by (simp add: ServeHTTP_def Let_def split_def labelNames_of_simps
          del: dom_fun_upd fun_upd_apply
          split: completion.split option.split)
qed

section \<open>The claims\<close>

text \<open>
  C1. The status-code label starts as the sentinel \<open>0\<close>, which is not the empty string.
  The claim goes on: when the callback never ran, finalization sets the label from the
  status it is given. The code tests the label against the empty string, not against the
  sentinel, so the label stays \<open>0\<close>: when the next handler writes no head and returns
  nil, the three histograms are observed under \<open>code = 0\<close>, whatever the recorder's
  status \<open>st\<close> is and whatever \<open>SanitizeCode\<close> makes of it.
\<close>

theorem ServeHTTP_unset_code_stays:
  "ServeHTTP sc sm r
     \<lparr>head_writes = [],
        completion = Returned \<lparr>err = None, since_start = d, Status = st, Size = n\<rparr>\<rparr>
   = ([Inc requestInFlight [''host'' \<mapsto> Host r], CallNext, NextReturned,
       Inc requestCount [''host'' \<mapsto> Host r],
       Observe requestDuration
         [''host'' \<mapsto> Host r, ''method'' \<mapsto> sm (Method r), ''code'' \<mapsto> ''0''] (Seconds d),
       Observe requestSize
         [''host'' \<mapsto> Host r, ''method'' \<mapsto> sm (Method r), ''code'' \<mapsto> ''0'']
         (real_of_int (sint (computeApproximateRequestSize r))),
       Observe responseSize
         [''host'' \<mapsto> Host r, ''method'' \<mapsto> sm (Method r), ''code'' \<mapsto> ''0'']
         (real_of_int n),
       Dec requestInFlight [''host'' \<mapsto> Host r]],
      Return None)"
  by (simp add: ServeHTTP_def Let_def split_def observeRequest_def label_def)

text \<open>
  C2. On every path (the next handler returns nil, returns an error with or without a
  status code, or panics) the trace starts with the increment of the in-flight gauge
  for the host, followed by the call of the next handler, and ends with the decrement,
  after the next handler has returned or panicked; these are the only two gauge events,
  and every series of the gauge holds afterwards what it held before.
\<close>

theorem ServeHTTP_in_flight:
  "(\<exists>mid. fst (ServeHTTP sc sm r nxt)
      = [Inc requestInFlight [''host'' \<mapsto> Host r], CallNext]
        @ snd (next_ServeHTTP sc (head_writes nxt)
                 [''host'' \<mapsto> Host r, ''method'' \<mapsto> sm (Method r), ''code'' \<mapsto> ''0''])
        @ [case completion nxt of Returned ret \<Rightarrow> NextReturned | Panicked \<Rightarrow> NextPanicked]
        @ mid @ [Dec requestInFlight [''host'' \<mapsto> Host r]]
      \<and> incs requestInFlight mid = [] \<and> decs requestInFlight mid = [])
   \<and> incs requestInFlight (fst (ServeHTTP sc sm r nxt)) = [[''host'' \<mapsto> Host r]]
   \<and> decs requestInFlight (fst (ServeHTTP sc sm r nxt)) = [[''host'' \<mapsto> Host r]]
   \<and> numbers (exec (fst (ServeHTTP sc sm r nxt)) s) (requestInFlight, ls)
       = numbers s (requestInFlight, ls)"
  using ServeHTTP_trace [of sc sm r nxt] ServeHTTP_gauge_events [of sc sm r nxt]
  by (simp add: numbers_exec)

text \<open>
  C3. When the next handler returns, with an error or without, the increment of the
  request counter for the host is the first event after the return, before the branch on
  the error; it is the only event on that counter, and the series goes up by exactly 1.
\<close>

theorem ServeHTTP_requestCount:
  "(\<exists>post. fst (ServeHTTP sc sm r \<lparr>head_writes = hw, completion = Returned ret\<rparr>)
      = [Inc requestInFlight [''host'' \<mapsto> Host r], CallNext]
        @ snd (next_ServeHTTP sc hw
                 [''host'' \<mapsto> Host r, ''method'' \<mapsto> sm (Method r), ''code'' \<mapsto> ''0''])
        @ [NextReturned, Inc requestCount [''host'' \<mapsto> Host r]] @ post
      \<and> incs requestCount post = [])
   \<and> incs requestCount (fst (ServeHTTP sc sm r \<lparr>head_writes = hw, completion = Returned ret\<rparr>))
       = [[''host'' \<mapsto> Host r]]
   \<and> decs requestCount (fst (ServeHTTP sc sm r \<lparr>head_writes = hw, completion = Returned ret\<rparr>))
       = []
   \<and> numbers (exec (fst (ServeHTTP sc sm r \<lparr>head_writes = hw, completion = Returned ret\<rparr>)) s)
         (requestCount, [''host'' \<mapsto> Host r])
       = numbers s (requestCount, [''host'' \<mapsto> Host r]) + 1"
proof (cases "err ret")
  case None
  then show ?thesis
    by (simp add: ServeHTTP_def Let_def split_def observeRequest_def numbers_exec
          incs_append decs_append next_ServeHTTP_incs next_ServeHTTP_decs)
next
  case (Some e)
  then show ?thesis
    by (cases "StatusCode e")
       (simp_all add: ServeHTTP_def Let_def split_def observeRequest_def numbers_exec
          incs_append decs_append next_ServeHTTP_incs next_ServeHTTP_decs)
qed

text \<open>
  C4. When the next handler returns an error from which a handler error with a status
  code is extracted, each of the request-duration, request-size and response-size
  histograms receives exactly one observation, all three under the same label set \<open>L\<close>
  of host, sanitized method and status-code label; the error counter for the host goes
  up by 1, and the error is returned as it was.
\<close>

theorem ServeHTTP_error_with_status:
  "(let e = \<lparr>message = msg, StatusCode = Some code\<rparr>;
        out = ServeHTTP sc sm r \<lparr>head_writes = hw, completion = Returned
                \<lparr>err = Some e, since_start = d, Status = st, Size = n\<rparr>\<rparr>;
        L = fst (observeRequest sc r (Seconds d) n
                   (fst (next_ServeHTTP sc hw
                      [''host'' \<mapsto> Host r, ''method'' \<mapsto> sm (Method r), ''code'' \<mapsto> ''0'']))
                   code)
    in observed requestDuration (fst out) = [(L, Seconds d)]
       \<and> observed requestSize (fst out)
           = [(L, real_of_int (sint (computeApproximateRequestSize r)))]
       \<and> observed responseSize (fst out) = [(L, real_of_int n)]
       \<and> L ''host'' = Some (Host r)
       \<and> L ''method'' = Some (sm (Method r))
       \<and> L ''code''
           = Some (if hw = [] then ''0''
                   else if sc (fst (last hw)) = '''' then sc code else sc (fst (last hw)))
       \<and> samples (exec (fst out) s) (requestDuration, L)
           = samples s (requestDuration, L) @ [Seconds d]
       \<and> samples (exec (fst out) s) (requestSize, L)
           = samples s (requestSize, L) @ [real_of_int (sint (computeApproximateRequestSize r))]
       \<and> samples (exec (fst out) s) (responseSize, L)
           = samples s (responseSize, L) @ [real_of_int n]
       \<and> incs requestErrors (fst out) = [[''host'' \<mapsto> Host r]]
       \<and> numbers (exec (fst out) s) (requestErrors, [''host'' \<mapsto> Host r])
           = numbers s (requestErrors, [''host'' \<mapsto> Host r]) + 1
       \<and> snd out = Return (Some e))"
  by (simp add: ServeHTTP_def Let_def split_def observeRequest_def numbers_exec samples_exec
        observed_append incs_append decs_append next_ServeHTTP_incs next_ServeHTTP_decs
        next_ServeHTTP_observed_other next_ServeHTTP_labels_other next_ServeHTTP_labels_code
        label_def)

text \<open>
  C5. When the next handler returns an error with no status code to extract, the
  request-duration, request-size and response-size histograms receive no observation,
  the error counter for the host goes up by 1, and the error is returned as it was.
\<close>

theorem ServeHTTP_error_without_status:
  "(let e = \<lparr>message = msg, StatusCode = None\<rparr>;
        out = ServeHTTP sc sm r \<lparr>head_writes = hw, completion = Returned
                \<lparr>err = Some e, since_start = d, Status = st, Size = n\<rparr>\<rparr>
    in observed requestDuration (fst out) = []
       \<and> observed requestSize (fst out) = []
       \<and> observed responseSize (fst out) = []
       \<and> incs requestErrors (fst out) = [[''host'' \<mapsto> Host r]]
       \<and> numbers (exec (fst out) s) (requestErrors, [''host'' \<mapsto> Host r])
           = numbers s (requestErrors, [''host'' \<mapsto> Host r]) + 1
       \<and> samples (exec (fst out) s) (requestDuration, ls) = samples s (requestDuration, ls)
       \<and> samples (exec (fst out) s) (requestSize, ls) = samples s (requestSize, ls)
       \<and> samples (exec (fst out) s) (responseSize, ls) = samples s (responseSize, ls)
       \<and> snd out = Return (Some e))"
  by (simp add: ServeHTTP_def Let_def split_def numbers_exec samples_exec
        observed_append incs_append decs_append next_ServeHTTP_incs next_ServeHTTP_decs
        next_ServeHTTP_observed_other)

text \<open>
  C6, as amended. The time to first byte is observed once for each call of the callback,
  with the time read in that call, and not otherwise: not at all when no head is
  written, once when the recorder calls the callback once. On the clock, every such
  value is at most the request duration \<open>dur\<close> read after the return, which is the value
  that finalization observes in the request-duration histogram whenever it observes one.
\<close>

theorem ServeHTTP_ttfb:
  "map snd (observed responseDuration (fst (ServeHTTP sc sm r nxt)))
     = map (\<lambda>call. Seconds (snd call)) (head_writes nxt)
   \<and> length (observed responseDuration (fst (ServeHTTP sc sm r nxt)))
       = length (head_writes nxt)
   \<and> (let t = fst (ServeHTTP sc sm r (on_clock calls passed c));
           dur = Seconds (now_after calls + int passed)
       in length (observed responseDuration t) = length calls
          \<and> list_all (\<lambda>p. snd p \<le> dur) (observed responseDuration t)
          \<and> list_all (\<lambda>p. list_all (\<lambda>q. snd p \<le> snd q) (observed requestDuration t))
               (observed responseDuration t)
          \<and> (case c of
                Returned ret \<Rightarrow> list_all (\<lambda>q. snd q = dur) (observed requestDuration t)
              | Panicked \<Rightarrow> observed requestDuration t = []))"
proof -
  let ?t = "fst (ServeHTTP sc sm r (on_clock calls passed c))"
  let ?dur = "Seconds (now_after calls + int passed)"
  have v: "map snd (observed responseDuration (fst (ServeHTTP sc sm r nxt)))
      = map (\<lambda>call. Seconds (snd call)) (head_writes nxt)" for nxt
    by (rule ServeHTTP_observed_responseDuration)
  have len: "length (observed responseDuration (fst (ServeHTTP sc sm r nxt)))
      = length (head_writes nxt)" for nxt
    using arg_cong [OF v [of nxt], of length] by simp
  have len': "length (observed responseDuration ?t) = length calls"
    by (simp add: len on_clock_def length_readings)
  have "list_all (\<lambda>call. snd call \<le> now_after calls + int passed)
          (head_writes (on_clock calls passed c))"
    using readings_le [of 0 calls passed] by (simp add: on_clock_def now_after_def)
  then have le: "list_all (\<lambda>p. snd p \<le> ?dur) (observed responseDuration ?t)"
    by (rule ServeHTTP_ttfb_le)
  have eq: "(case c of
        Returned ret \<Rightarrow> list_all (\<lambda>q. snd q = ?dur) (observed requestDuration ?t)
      | Panicked \<Rightarrow> observed requestDuration ?t = [])"
    by (simp add: ServeHTTP_observed_requestDuration on_clock_def
          split: completion.split option.split)
  have all: "list_all (\<lambda>q. snd q = ?dur) (observed requestDuration ?t)"
    using eq by (cases c) simp_all
  have "list_all (\<lambda>p. list_all (\<lambda>q. snd p \<le> snd q) (observed requestDuration ?t))
          (observed responseDuration ?t)"
    using le all by (simp add: list_all_iff)
  with v [of nxt] len [of nxt] len' le eq show ?thesis by (simp add: Let_def)
qed

text \<open>
  C6 as stated fails: \<open>ServeHTTP\<close> has no guard of its own against a second call of the
  callback. In \<open>run_early_hints\<close> the callback runs for the informational head and again
  for the final head, and the time to first byte is observed twice.
\<close>

theorem ServeHTTP_ttfb_twice:
  "observed responseDuration
     (fst (ServeHTTP sample_SanitizeCode sample_SanitizeMethod request_get run_early_hints))
   = [([''host'' \<mapsto> ''h'', ''method'' \<mapsto> ''GET'', ''code'' \<mapsto> ''other''], 1 / 1000),
      ([''host'' \<mapsto> ''h'', ''method'' \<mapsto> ''GET'', ''code'' \<mapsto> ''200''], 2 / 1000)]
   \<and> \<not> length (observed responseDuration
          (fst (ServeHTTP sample_SanitizeCode sample_SanitizeMethod request_get
             run_early_hints))) \<le> 1"
  by (simp add: run_early_hints_def request_get_def ServeHTTP_def
        Let_def split_def observeRequest_def writeHeaderRecorder_def Seconds_def label_def
        sample_SanitizeCode_def sample_SanitizeMethod_def)

text \<open>
  C9, as amended. \<open>init\<close> registers seven vectors (not six): one gauge, two counters and
  four histograms, all under the namespace \<open>caddy\<close> and the subsystem \<open>http_extend\<close>,
  with distinct names; the gauge and the counters are labelled by host, the histograms
  by host, code and method; the two duration histograms use the client's default
  buckets, the two size histograms eight buckets that start at 256 and grow by the
  factor 4.
\<close>

theorem init_instruments:
  "length (init DefBuckets) = 7
   \<and> map field (init DefBuckets)
       = [requestInFlight, requestErrors, requestCount, requestDuration, requestSize,
          responseSize, responseDuration]
   \<and> map kind (init DefBuckets)
       = [GaugeVec, CounterVec, CounterVec, HistogramVec, HistogramVec, HistogramVec,
          HistogramVec]
   \<and> list_all (\<lambda>i. Namespace i = ''caddy'' \<and> Subsystem i = ''http_extend'') (init DefBuckets)
   \<and> map Name (init DefBuckets)
       = [''requests_in_flight'', ''request_errors_total'', ''requests_total'',
          ''request_duration_seconds'', ''request_size_bytes'', ''response_size_bytes'',
          ''response_duration_seconds'']
   \<and> distinct (map Name (init DefBuckets))
   \<and> map labelNames (init DefBuckets)
       = [[''host''], [''host''], [''host''], [''host'', ''code'', ''method''],
          [''host'', ''code'', ''method''], [''host'', ''code'', ''method''],
          [''host'', ''code'', ''method'']]
   \<and> map Buckets (init DefBuckets)
       = [[], [], [], DefBuckets,
          [256, 1024, 4096, 16384, 65536, 262144, 1048576, 4194304],
          [256, 1024, 4096, 16384, 65536, 262144, 1048576, 4194304],
          DefBuckets]
   \<and> length (ExponentialBuckets 256 4 8) = 8
   \<and> hd (ExponentialBuckets 256 4 8) = 256
   \<and> map (\<lambda>b. 4 * b) (butlast (ExponentialBuckets 256 4 8)) = tl (ExponentialBuckets 256 4 8)"
  by (simp add: init_def Let_def eval_nat_numeral)

text \<open>
  C9 as stated fails: with the client's default duration buckets, \<open>init\<close> registers
  seven vectors.
\<close>

theorem init_not_six:
  "length (init [0.005, 0.01, 0.025, 0.05, 0.1, 0.25, 0.5, 1, 2.5, 5, 10]) = 7
   \<and> length (init [0.005, 0.01, 0.025, 0.05, 0.1, 0.25, 0.5, 1, 2.5, 5, 10]) \<noteq> 6"
  by (simp add: init_def Let_def)

text \<open>
  C10, as amended. When the next handler panics, the request counter, the error counter
  and the request-duration, request-size and response-size histograms receive nothing,
  and the in-flight increment and the deferred decrement cancel, so every gauge and
  counter series holds what it held before; the time-to-first-byte histogram keeps one
  observation for each call of the callback made before the panic.
\<close>

theorem ServeHTTP_panic:
  "(let out = ServeHTTP sc sm r \<lparr>head_writes = hw, completion = Panicked\<rparr>
    in out = ([Inc requestInFlight [''host'' \<mapsto> Host r], CallNext]
              @ snd (next_ServeHTTP sc hw
                  [''host'' \<mapsto> Host r, ''method'' \<mapsto> sm (Method r), ''code'' \<mapsto> ''0''])
              @ [NextPanicked, Dec requestInFlight [''host'' \<mapsto> Host r]], Panic)
       \<and> incs requestCount (fst out) = []
       \<and> incs requestErrors (fst out) = []
       \<and> observed requestDuration (fst out) = []
       \<and> observed requestSize (fst out) = []
       \<and> observed responseSize (fst out) = []
       \<and> map snd (observed responseDuration (fst out)) = map (\<lambda>call. Seconds (snd call)) hw
       \<and> numbers (exec (fst out) s) = numbers s
       \<and> samples (exec (fst out) s) (requestDuration, ls) = samples s (requestDuration, ls)
       \<and> samples (exec (fst out) s) (requestSize, ls) = samples s (requestSize, ls)
       \<and> samples (exec (fst out) s) (responseSize, ls) = samples s (responseSize, ls))"
proof -
  have n: "numbers (exec (fst (ServeHTTP sc sm r \<lparr>head_writes = hw, completion = Panicked\<rparr>)) s)
      = numbers s"
  proof
    fix k :: "metric \<times> labels"
    obtain m l where k: "k = (m, l)" by (cases k)
    show "numbers (exec (fst (ServeHTTP sc sm r \<lparr>head_writes = hw, completion = Panicked\<rparr>)) s) k
        = numbers s k"
      unfolding k numbers_exec
      by (simp add: ServeHTTP_def Let_def split_def incs_append decs_append
            next_ServeHTTP_incs next_ServeHTTP_decs)
  qed
  show ?thesis
    unfolding Let_def n
    by (simp add: ServeHTTP_def Let_def split_def samples_exec
          observed_append incs_append next_ServeHTTP_incs
          next_ServeHTTP_observed_other next_ServeHTTP_observed)
qed

text \<open>
  C10 as stated fails: a next handler that writes a response head and then panics leaves
  an observation in the time-to-first-byte histogram.
\<close>

theorem ServeHTTP_panic_after_head:
  "observed responseDuration
     (fst (ServeHTTP sample_SanitizeCode sample_SanitizeMethod request_get run_head_then_panic))
   = [([''host'' \<mapsto> ''h'', ''method'' \<mapsto> ''GET'', ''code'' \<mapsto> ''200''], 2 / 1000)]
   \<and> observed responseDuration
        (fst (ServeHTTP sample_SanitizeCode sample_SanitizeMethod request_get
           run_head_then_panic)) \<noteq> []
   \<and> snd (ServeHTTP sample_SanitizeCode sample_SanitizeMethod request_get run_head_then_panic)
       = Panic
   \<and> samples (exec (fst (ServeHTTP sample_SanitizeCode sample_SanitizeMethod request_get
          run_head_then_panic)) \<lparr>numbers = (\<lambda>k. 0), samples = (\<lambda>k. [])\<rparr>)
        (responseDuration, [''host'' \<mapsto> ''h'', ''method'' \<mapsto> ''GET'', ''code'' \<mapsto> ''200''])
       = [2 / 1000]"
  by (simp add: run_head_then_panic_def request_get_def ServeHTTP_def Let_def split_def
        writeHeaderRecorder_def Seconds_def sample_SanitizeCode_def sample_SanitizeMethod_def
        exec_def)

end
